theory Spec2Isabelle
  imports Main
begin

section \<open>Tensors, errors and checkpoint values\<close>

text \<open>
  The file \<^verbatim>\<open>megatron_patch/model/llama2/gpt_model.py\<close> is glue around a training
  framework. A tensor is modelled by what the file can observe of it: its shape, its
  element type and its elements, the latter as a function from an index (one number per
  axis) to a scalar of an arbitrary type \<open>'a\<close>.
\<close>

datatype dtype = Half | BFloat16 | Float | Double | Long

record 'a tensor =
  shape :: "nat list"
  dtype :: dtype
  elems :: "nat list \<Rightarrow> 'a"

text \<open>The exceptions that the statements of the file can raise.\<close>

datatype error = AssertionError | IndexError | AttributeError | KeyError | RuntimeError

text \<open>Exchanging the first two entries of a list; lists shorter than two are left alone.\<close>

fun swap01 :: "'x list \<Rightarrow> 'x list" where
  "swap01 (a # b # rest) = b # a # rest"
| "swap01 xs = xs"

text \<open>
  \<^verbatim>\<open>t.transpose(0, 1)\<close>: the first two axes change places, and the element at index
  \<open>i\<close> of the result is the element of \<open>t\<close> at the index with its first two
  components exchanged. On a tensor with fewer than two axes the library raises
  \<^verbatim>\<open>IndexError\<close> (dimension out of range).
\<close>

definition transpose01 :: "'a tensor \<Rightarrow> error + 'a tensor" where
  "transpose01 t =
     (if length (shape t) < 2 then Inl IndexError
      else Inr \<lparr>shape = swap01 (shape t), dtype = dtype t,
                elems = (\<lambda>i. elems t (swap01 i))\<rparr>)"

text \<open>\<^verbatim>\<open>t.contiguous()\<close> changes the memory layout only, never the value.\<close>

definition contiguous :: "'a tensor \<Rightarrow> 'a tensor" where
  "contiguous t = t"

text \<open>
  A checkpoint value is a parameter tensor or a dictionary from string keys to checkpoint
  values; a checkpoint state mapping is such a dictionary.
\<close>

datatype 'a state_value = Param "'a tensor" | Dict "string \<Rightarrow> 'a state_value option"

type_synonym 'a state_dict = "string \<Rightarrow> 'a state_value option"

section \<open>The wrapper and the operations it imports\<close>

text \<open>
  The attributes of a \<^verbatim>\<open>GPTModel\<close> instance. The backbone (\<open>'lm\<close>) and the separate
  word-embedding module of a last pipeline stage (\<open>'emb\<close>) belong to the framework and
  stay abstract. The attributes \<^verbatim>\<open>_word_embeddings_for_head_key\<close> and
  \<^verbatim>\<open>word_embeddings\<close> are not set by this file but by the base class, so either
  may be absent (\<open>None\<close>), and reading an absent attribute raises
  \<^verbatim>\<open>AttributeError\<close>. The two key attributes are written without their leading
  underscore.
\<close>

record ('lm, 'emb) GPTModel =
  share_word_embeddings :: bool
  parallel_output :: bool
  pre_process :: bool
  post_process :: bool
  fp16_lm_cross_entropy :: bool
  untie_embeddings_and_output_weights :: bool
  language_model :: 'lm
  language_model_key :: string
  word_embeddings_for_head_key :: "string option"
  word_embeddings :: "'emb option"

text \<open>The fields of the global configuration (\<^verbatim>\<open>get_args()\<close>) that the constructor reads.\<close>

record 'a args =
  args_untie_embeddings_and_output_weights :: bool
  args_fp16_lm_cross_entropy :: bool
  args_init_method_std :: 'a
  args_num_layers :: nat

datatype AttnMaskType = padding | causal

text \<open>
  \<^verbatim>\<open>init_method_normal(sigma)\<close> and \<^verbatim>\<open>scaled_init_method_normal(sigma, n)\<close> return
  closures; the constructor only hands them on, so they are kept as terms.
\<close>

datatype 'a init_method = init_method_normal 'a | scaled_init_method_normal 'a nat

text \<open>
  Everything the file calls but does not define is a parameter: the logits projection and
  the backbone constructor of \<^verbatim>\<open>.language_model\<close>, the cross-entropy reduction of
  \<^verbatim>\<open>tensor_parallel\<close>, the conversion \<^verbatim>\<open>.float()\<close>, the methods of the base class
  and the methods of the backbone and of the embedding module. Operations that update a
  module in place return the new module; the two loaders may raise (strict mode) and
  return the error, if any, together with the module as they left it. The base-class
  method \<^verbatim>\<open>initialize_word_embeddings\<close> yields the two attributes it may set on the
  instance, the head key and the embedding module.
\<close>

record ('a, 'lm, 'emb, 'ip) framework =
  parallel_lm_logits :: "'a tensor \<Rightarrow> 'a tensor \<Rightarrow> bool \<Rightarrow> 'a tensor"
  vocab_parallel_cross_entropy :: "'a tensor \<Rightarrow> 'a tensor \<Rightarrow> 'a tensor"
  tensor_float :: "'a tensor \<Rightarrow> 'a tensor"
  get_language_model ::
    "nat \<Rightarrow> bool \<Rightarrow> AttnMaskType \<Rightarrow> 'a init_method \<Rightarrow> 'a init_method \<Rightarrow> bool \<Rightarrow> bool
       \<Rightarrow> 'lm \<times> string"
  initialize_word_embeddings :: "('lm, 'emb) GPTModel \<Rightarrow> error + (string \<times> 'emb) option"
  word_embeddings_weight :: "('lm, 'emb) GPTModel \<Rightarrow> 'a tensor"
  output_layer_weight :: "'lm \<Rightarrow> 'a tensor"
  lm_forward ::
    "'lm \<Rightarrow> 'a tensor \<Rightarrow> 'a tensor option \<Rightarrow> 'a tensor option \<Rightarrow> 'ip option
       \<Rightarrow> 'a tensor \<times> 'lm"
  lm_set_input_tensor :: "'lm \<Rightarrow> 'a tensor option \<Rightarrow> 'lm"
  lm_state_dict_for_save_checkpoint :: "'lm \<Rightarrow> string \<Rightarrow> bool \<Rightarrow> 'a state_value"
  lm_load_state_dict :: "'lm \<Rightarrow> 'a state_value \<Rightarrow> bool \<Rightarrow> error option \<times> 'lm"
  emb_state_dict :: "'emb \<Rightarrow> string \<Rightarrow> bool \<Rightarrow> 'a state_value"
  emb_load_state_dict :: "'emb \<Rightarrow> 'a state_value \<Rightarrow> bool \<Rightarrow> error option \<times> 'emb"

section \<open>Post-processing\<close>

text \<open>
  \<^verbatim>\<open>post_language_model_processing\<close>, statement by statement. The \<^verbatim>\<open>assert\<close> is a
  branch that yields \<^verbatim>\<open>AssertionError\<close> (the interpreter runs with assertions
  enabled); the labels are transposed before the assertion is reached, as in the source.
\<close>

definition post_language_model_processing ::
  "('a, 'lm, 'emb, 'ip) framework \<Rightarrow> 'a tensor \<Rightarrow> 'a tensor option \<Rightarrow> 'a tensor \<Rightarrow> bool \<Rightarrow> bool
     \<Rightarrow> error + 'a tensor" where
  "post_language_model_processing F lm_output labels logit_weights par_output fp16 =
     (let output = parallel_lm_logits F lm_output logit_weights par_output in
      case labels of
        None \<Rightarrow> map_sum id contiguous (transpose01 output)
      | Some lab \<Rightarrow>
          (case map_sum id contiguous (transpose01 lab) of
             Inl e \<Rightarrow> Inl e
           | Inr lab' \<Rightarrow>
               (if fp16 then
                  (if dtype output = Half
                   then map_sum id contiguous
                          (transpose01 (vocab_parallel_cross_entropy F output lab'))
                   else Inl AssertionError)
                else map_sum id contiguous
                       (transpose01
                          (vocab_parallel_cross_entropy F (tensor_float F output) lab')))))"

section \<open>The model wrapper\<close>

text \<open>
  The constructor. It stores its arguments and two fields of the configuration, obtains
  the backbone and its key, and, when the embeddings are tied, lets the base class add
  the attributes of the shared embedding. An exception of that call aborts construction.
\<close>

definition GPTModel_init ::
  "('a, 'lm, 'emb, 'ip) framework \<Rightarrow> 'a args \<Rightarrow> nat \<Rightarrow> bool \<Rightarrow> bool \<Rightarrow> bool
     \<Rightarrow> error + ('lm, 'emb) GPTModel" where
  "GPTModel_init F args num_tokentypes par_output pre post =
     (case get_language_model F num_tokentypes False causal
             (init_method_normal (args_init_method_std args))
             (scaled_init_method_normal (args_init_method_std args) (args_num_layers args))
             pre post of
        (lm, key) \<Rightarrow>
          (let self = \<lparr>share_word_embeddings = \<not> args_untie_embeddings_and_output_weights args,
                       parallel_output = par_output,
                       pre_process = pre,
                       post_process = post,
                       fp16_lm_cross_entropy = args_fp16_lm_cross_entropy args,
                       untie_embeddings_and_output_weights =
                         args_untie_embeddings_and_output_weights args,
                       language_model = lm,
                       language_model_key = key,
                       word_embeddings_for_head_key = None,
                       word_embeddings = None\<rparr>
           in if \<not> args_untie_embeddings_and_output_weights args then
                (case initialize_word_embeddings F self of
                   Inl e \<Rightarrow> Inl e
                 | Inr None \<Rightarrow> Inr self
                 | Inr (Some (k, emb)) \<Rightarrow>
                     Inr (self\<lparr>word_embeddings_for_head_key := Some k,
                               word_embeddings := Some emb\<rparr>))
              else Inr self))"

definition set_input_tensor ::
  "('a, 'lm, 'emb, 'ip) framework \<Rightarrow> ('lm, 'emb) GPTModel \<Rightarrow> 'a tensor option
     \<Rightarrow> ('lm, 'emb) GPTModel" where
  "set_input_tensor F self input_tensor =
     self\<lparr>language_model := lm_set_input_tensor F (language_model self) input_tensor\<rparr>"

text \<open>
  \<^verbatim>\<open>forward\<close> returns the tensor (or the exception) together with the instance, whose
  backbone the call may have updated.
\<close>

definition forward ::
  "('a, 'lm, 'emb, 'ip) framework \<Rightarrow> ('lm, 'emb) GPTModel \<Rightarrow> 'a tensor \<Rightarrow> 'a tensor option
     \<Rightarrow> 'a tensor option \<Rightarrow> 'a tensor option \<Rightarrow> 'ip option
     \<Rightarrow> (error + 'a tensor) \<times> ('lm, 'emb) GPTModel" where
  "forward F self input_ids position_ids attention_mask labels inference_params =
     (case lm_forward F (language_model self) input_ids position_ids attention_mask
             inference_params of
        (lm_output, lm') \<Rightarrow>
          (let self' = self\<lparr>language_model := lm'\<rparr>
           in if post_process self' then
                (post_language_model_processing F lm_output labels
                   (if untie_embeddings_and_output_weights self'
                    then output_layer_weight F (language_model self')
                    else word_embeddings_weight F self')
                   (parallel_output self') (fp16_lm_cross_entropy self'),
                 self')
              else (Inr lm_output, self')))"

text \<open>The condition under which a stage saves and loads the shared word embeddings.\<close>

definition saves_word_embeddings :: "('lm, 'emb) GPTModel \<Rightarrow> bool" where
  "saves_word_embeddings self \<longleftrightarrow>
     post_process self \<and> \<not> pre_process self \<and> \<not> untie_embeddings_and_output_weights self"

text \<open>
  \<^verbatim>\<open>state_dict_for_save_checkpoint\<close> assigns to no attribute; like the other methods
  it is written as a function from the instance to its result and the instance after the
  call.
\<close>

definition state_dict_for_save_checkpoint ::
  "('a, 'lm, 'emb, 'ip) framework \<Rightarrow> ('lm, 'emb) GPTModel \<Rightarrow> string \<Rightarrow> bool
     \<Rightarrow> (error + 'a state_dict) \<times> ('lm, 'emb) GPTModel" where
  "state_dict_for_save_checkpoint F self prefix keep_vars =
     (let state_dict = Map.empty(language_model_key self \<mapsto>
            lm_state_dict_for_save_checkpoint F (language_model self) prefix keep_vars)
      in if saves_word_embeddings self then
           (case word_embeddings self of
              None \<Rightarrow> (Inl AttributeError, self)
            | Some emb \<Rightarrow>
                (case word_embeddings_for_head_key self of
                   None \<Rightarrow> (Inl AttributeError, self)
                 | Some k \<Rightarrow>
                     (Inr (state_dict(k \<mapsto> emb_state_dict F emb prefix keep_vars)), self)))
         else (Inr state_dict, self))"

text \<open>
  The first statement of \<^verbatim>\<open>load_state_dict\<close>: the embedding module loads the entry
  under the head key. A missing attribute, a missing key and an error of the module's
  loader all end the call.
\<close>

definition load_word_embeddings ::
  "('a, 'lm, 'emb, 'ip) framework \<Rightarrow> ('lm, 'emb) GPTModel \<Rightarrow> 'a state_dict \<Rightarrow> bool
     \<Rightarrow> error option \<times> ('lm, 'emb) GPTModel" where
  "load_word_embeddings F self state_dict strict =
     (if saves_word_embeddings self then
        (case word_embeddings self of
           None \<Rightarrow> (Some AttributeError, self)
         | Some emb \<Rightarrow>
             (case word_embeddings_for_head_key self of
                None \<Rightarrow> (Some AttributeError, self)
              | Some k \<Rightarrow>
                  (case state_dict k of
                     None \<Rightarrow> (Some KeyError, self)
                   | Some v \<Rightarrow>
                       (case emb_load_state_dict F emb v strict of
                          (r, emb') \<Rightarrow> (r, self\<lparr>word_embeddings := Some emb'\<rparr>)))))
      else (None, self))"

text \<open>
  The rest of \<^verbatim>\<open>load_state_dict\<close>: the local variable is rebound to the entry under
  the language-model key when there is one, and the backbone loads it.
\<close>

definition load_state_dict ::
  "('a, 'lm, 'emb, 'ip) framework \<Rightarrow> ('lm, 'emb) GPTModel \<Rightarrow> 'a state_dict \<Rightarrow> bool
     \<Rightarrow> error option \<times> ('lm, 'emb) GPTModel" where
  "load_state_dict F self state_dict strict =
     (case load_word_embeddings F self state_dict strict of
        (Some e, self') \<Rightarrow> (Some e, self')
      | (None, self') \<Rightarrow>
          (let state_dict' =
                 (case state_dict (language_model_key self') of
                    Some v \<Rightarrow> v
                  | None \<Rightarrow> Dict state_dict)
           in case lm_load_state_dict F (language_model self') state_dict' strict of
                (r, lm') \<Rightarrow> (r, self'\<lparr>language_model := lm'\<rparr>)))"

section \<open>A concrete framework\<close>

text \<open>The last entry of a shape or of an index; \<open>0\<close> for the empty list.\<close>

definition last_dim :: "nat list \<Rightarrow> nat" where
  "last_dim s = (case rev s of [] \<Rightarrow> 0 | n # _ \<Rightarrow> n)"

text \<open>
  Modelled from the spec: \<^verbatim>\<open>parallel_lm_logits\<close>, the logits-projection function of
  \<^verbatim>\<open>.language_model\<close>, which is not part of the sources at hand. The docstring of
  \<^verbatim>\<open>post_language_model_processing\<close> gives the backbone output the shape
  \<open>[s, b, h]\<close> and the projection weights the shape \<open>[v, h]\<close>; the projection is the
  linear map along the last axis, so the logits have the shape \<open>[s, b, v]\<close>. With a
  single tensor-parallel rank the parallel-output flag makes no difference.
\<close>

definition lm_logits :: "int tensor \<Rightarrow> int tensor \<Rightarrow> bool \<Rightarrow> int tensor" where
  "lm_logits input weight par_output =
     \<lparr>shape = butlast (shape input) @ take 1 (shape weight),
      dtype = dtype input,
      elems = (\<lambda>i. sum_list (map (\<lambda>k. elems input (butlast i @ [k]) * elems weight [last_dim i, k])
                                 [0..<last_dim (shape input)]))\<rparr>"

text \<open>
  Modelled from the spec: the backbone that \<^verbatim>\<open>get_language_model\<close> of
  \<^verbatim>\<open>.language_model\<close> constructs, reduced to what the wrapper touches: the word
  embedding and the untied output layer as parameters, the injected input tensor, a
  forward pass that returns the injected tensor, or else looks the token ids (shape
  \<open>[b, s]\<close>) up in the embedding and returns hidden states of shape \<open>[s, b, h]\<close>,
  and a checkpoint state with one entry per parameter. Attention and normalisation, which
  keep that shape, are left out.
\<close>

record backbone =
  embedding :: "int tensor"
  output_layer :: "int tensor"
  input_tensor :: "int tensor option"

text \<open>
  Modelled from the spec: the forward pass of that backbone. An injected input tensor is
  returned as it is; otherwise the hidden state at \<open>[s, b, k]\<close> is entry \<open>k\<close> of the
  embedding row of the token at \<open>[b, s]\<close>.
\<close>

definition backbone_forward ::
  "backbone \<Rightarrow> int tensor \<Rightarrow> int tensor option \<Rightarrow> int tensor option \<Rightarrow> unit option
     \<Rightarrow> int tensor \<times> backbone" where
  "backbone_forward lm input_ids position_ids attention_mask inference_params =
     (case input_tensor lm of
        Some t \<Rightarrow> (t, lm)
      | None \<Rightarrow>
          (\<lparr>shape = swap01 (shape input_ids) @ drop 1 (shape (embedding lm)),
            dtype = dtype (embedding lm),
            elems = (\<lambda>i. case i of
                       [s, b, k] \<Rightarrow> elems (embedding lm) [nat (elems input_ids [b, s]), k]
                     | _ \<Rightarrow> 0)\<rparr>, lm))"

text \<open>
  Modelled from the spec: the checkpoint state of that backbone, a mapping with the entries
  \<^verbatim>\<open>embedding\<close> and \<^verbatim>\<open>output_layer\<close> under the given prefix.
\<close>

definition backbone_state_dict :: "backbone \<Rightarrow> string \<Rightarrow> bool \<Rightarrow> int state_value" where
  "backbone_state_dict lm prefix keep_vars =
     Dict (Map.empty(prefix @ ''embedding'' \<mapsto> Param (embedding lm),
                     prefix @ ''output_layer'' \<mapsto> Param (output_layer lm)))"

text \<open>
  Modelled from the spec: the loader of that backbone. It needs a mapping; when both
  entries are there it takes them over, otherwise it changes nothing and, in strict mode,
  raises the key-mismatch error.
\<close>

definition backbone_load_state_dict ::
  "backbone \<Rightarrow> int state_value \<Rightarrow> bool \<Rightarrow> error option \<times> backbone" where
  "backbone_load_state_dict lm v strict =
     (case v of
        Param t \<Rightarrow> (Some AttributeError, lm)
      | Dict m \<Rightarrow>
          (case (m ''embedding'', m ''output_layer'') of
             (Some (Param e), Some (Param w)) \<Rightarrow> (None, lm\<lparr>embedding := e, output_layer := w\<rparr>)
           | _ \<Rightarrow> (if strict then Some RuntimeError else None, lm)))"

text \<open>
  The embedding module of a last stage, a module of the framework, is represented by its
  weight; its checkpoint state has the single entry \<^verbatim>\<open>weight\<close>.
\<close>

definition embedding_state_dict :: "int tensor \<Rightarrow> string \<Rightarrow> bool \<Rightarrow> int state_value" where
  "embedding_state_dict w prefix keep_vars = Dict (Map.empty(prefix @ ''weight'' \<mapsto> Param w))"

text \<open>The loader of the embedding module, with the same treatment of a missing entry.\<close>

definition embedding_load_state_dict ::
  "int tensor \<Rightarrow> int state_value \<Rightarrow> bool \<Rightarrow> error option \<times> int tensor" where
  "embedding_load_state_dict w v strict =
     (case v of
        Param t \<Rightarrow> (Some AttributeError, w)
      | Dict m \<Rightarrow>
          (case m ''weight'' of
             Some (Param t) \<Rightarrow> (None, t)
           | _ \<Rightarrow> (if strict then Some RuntimeError else None, w)))"

text \<open>
  A stand-in for the cross-entropy reduction of the framework: one loss per target
  position (the logit of the target class, negated), in single precision.
\<close>

definition cross_entropy :: "int tensor \<Rightarrow> int tensor \<Rightarrow> int tensor" where
  "cross_entropy logits target =
     \<lparr>shape = shape target, dtype = Float,
      elems = (\<lambda>i. - elems logits (i @ [nat (elems target i)]))\<rparr>"

text \<open>Parameter tensors: all zero, and with the sum of the index as element.\<close>

definition zeros :: "nat list \<Rightarrow> dtype \<Rightarrow> int tensor" where
  "zeros s d = \<lparr>shape = s, dtype = d, elems = (\<lambda>i. 0)\<rparr>"

definition ramp :: "nat list \<Rightarrow> dtype \<Rightarrow> int tensor" where
  "ramp s d = \<lparr>shape = s, dtype = d, elems = (\<lambda>i. int (sum_list i))\<rparr>"

text \<open>
  The framework instance used for the concrete evaluations below: a vocabulary of five
  tokens, hidden size four, half precision parameters. The backbone constructor returns
  the key \<^verbatim>\<open>language_model\<close>; the base class adds the head embedding, under the key
  \<^verbatim>\<open>word_embeddings_for_head\<close>, to a last stage that is not the first, and refuses to
  do so when embeddings are not shared.
\<close>

definition sample :: "(int, backbone, int tensor, unit) framework" where
  "sample =
     \<lparr>parallel_lm_logits = lm_logits,
      vocab_parallel_cross_entropy = cross_entropy,
      tensor_float = (\<lambda>t. t\<lparr>dtype := Float\<rparr>),
      get_language_model = (\<lambda>num_tokentypes add_pooler mask init scaled_init pre post.
         (\<lparr>embedding = zeros [5, 4] Half, output_layer = zeros [5, 4] Half,
           input_tensor = None\<rparr>, ''language_model'')),
      initialize_word_embeddings = (\<lambda>self.
         if \<not> share_word_embeddings self then Inl RuntimeError
         else if post_process self \<and> \<not> pre_process self
              then Inr (Some (''word_embeddings_for_head'', zeros [5, 4] Half))
              else Inr None),
      word_embeddings_weight = (\<lambda>self.
         case word_embeddings self of
           Some w \<Rightarrow> if pre_process self then embedding (language_model self) else w
         | None \<Rightarrow> embedding (language_model self)),
      output_layer_weight = output_layer,
      lm_forward = backbone_forward,
      lm_set_input_tensor = (\<lambda>lm t. lm\<lparr>input_tensor := t\<rparr>),
      lm_state_dict_for_save_checkpoint = backbone_state_dict,
      lm_load_state_dict = backbone_load_state_dict,
      emb_state_dict = embedding_state_dict,
      emb_load_state_dict = embedding_load_state_dict\<rparr>"

text \<open>
  An instance as the constructor leaves it under \<open>sample\<close>, for the given stage flags,
  tying mode and precision flag.
\<close>

definition sample_model :: "bool \<Rightarrow> bool \<Rightarrow> bool \<Rightarrow> bool \<Rightarrow> (backbone, int tensor) GPTModel" where
  "sample_model pre post untie fp16 =
     \<lparr>share_word_embeddings = \<not> untie,
      parallel_output = True,
      pre_process = pre,
      post_process = post,
      fp16_lm_cross_entropy = fp16,
      untie_embeddings_and_output_weights = untie,
      language_model = \<lparr>embedding = zeros [5, 4] Half, output_layer = zeros [5, 4] Half,
                         input_tensor = None\<rparr>,
      language_model_key = ''language_model'',
      word_embeddings_for_head_key =
        (if \<not> untie \<and> post \<and> \<not> pre then Some ''word_embeddings_for_head'' else None),
      word_embeddings = (if \<not> untie \<and> post \<and> \<not> pre then Some (zeros [5, 4] Half) else None)\<rparr>"

text \<open>The same instance after training: its parameters are no longer zero.\<close>

definition trained_model :: "bool \<Rightarrow> bool \<Rightarrow> bool \<Rightarrow> bool \<Rightarrow> (backbone, int tensor) GPTModel" where
  "trained_model pre post untie fp16 =
     (sample_model pre post untie fp16)
       \<lparr>language_model := \<lparr>embedding = ramp [5, 4] Half, output_layer = ramp [5, 4] Half,
                            input_tensor = None\<rparr>,
        word_embeddings := (if \<not> untie \<and> post \<and> \<not> pre then Some (ramp [5, 4] Half) else None)\<rparr>"

text \<open>A configuration with the given tying mode and precision flag.\<close>

definition sample_args :: "bool \<Rightarrow> bool \<Rightarrow> int args" where
  "sample_args untie fp16 =
     \<lparr>args_untie_embeddings_and_output_weights = untie, args_fp16_lm_cross_entropy = fp16,
      args_init_method_std = 1, args_num_layers = 2\<rparr>"

text \<open>Token ids and labels for a batch of three sequences of length two.\<close>

definition sample_ids :: "int tensor" where
  "sample_ids = \<lparr>shape = [3, 2], dtype = Long, elems = (\<lambda>i. int (sum_list i mod 5))\<rparr>"

definition sample_labels :: "int tensor" where
  "sample_labels = \<lparr>shape = [3, 2], dtype = Long, elems = (\<lambda>i. int (Suc (sum_list i) mod 5))\<rparr>"

text \<open>
  A flat checkpoint mapping: the trained backbone parameters under their own names, with
  neither the key \<^verbatim>\<open>language_model\<close> nor the key \<^verbatim>\<open>word_embeddings_for_head\<close>.
\<close>

definition flat_checkpoint :: "int state_dict" where
  "flat_checkpoint = Map.empty(''embedding'' \<mapsto> Param (ramp [5, 4] Half),
                               ''output_layer'' \<mapsto> Param (ramp [5, 4] Half))"


text \<open>Hidden states of shape \<open>[s, b, h] = [2, 3, 4]\<close> in the given precision.\<close>

definition sample_hidden :: "dtype \<Rightarrow> int tensor" where
  "sample_hidden d = ramp [2, 3, 4] d"

section \<open>Evaluation rules\<close>

lemmas sample_defs = sample_def sample_model_def trained_model_def zeros_def ramp_def
  sample_ids_def sample_labels_def sample_hidden_def lm_logits_def backbone_forward_def
  backbone_state_dict_def backbone_load_state_dict_def embedding_state_dict_def
  embedding_load_state_dict_def cross_entropy_def sample_args_def last_dim_def
  flat_checkpoint_def

lemmas model_defs = forward_def post_language_model_processing_def transpose01_def
  contiguous_def Let_def

section \<open>Transposition\<close>

lemma swap01_swap01: "swap01 (swap01 xs) = xs"
  by (cases xs rule: swap01.cases) simp_all

lemma length_swap01: "length (swap01 xs) = length xs"
  by (cases xs rule: swap01.cases) simp_all

lemma transpose01_ok:
  "2 \<le> length (shape t) \<Longrightarrow> \<exists>u. transpose01 t = Inr u \<and> shape u = swap01 (shape t)"
  by (simp add: transpose01_def)

text \<open>Transposing twice gives the tensor back, elements included.\<close>

lemma transpose01_involution:
  assumes "transpose01 t = Inr u"
  shows "transpose01 u = Inr t"
proof -
  from assms have len: "\<not> length (shape t) < 2"
    by (auto simp: transpose01_def split: if_splits)
  with assms have u: "u = \<lparr>shape = swap01 (shape t), dtype = dtype t,
                           elems = (\<lambda>i. elems t (swap01 i))\<rparr>"
    by (simp add: transpose01_def)
  show ?thesis using len
    by (simp add: transpose01_def u length_swap01 swap01_swap01)
qed

section \<open>Post-processing and the forward operation\<close>

lemma post_processing_no_labels:
  "post_language_model_processing F lm_output None w po fp16
     = transpose01 (parallel_lm_logits F lm_output w po)"
  by (cases "transpose01 (parallel_lm_logits F lm_output w po)")
     (simp_all add: post_language_model_processing_def contiguous_def)

lemma forward_result:
  assumes "lm_forward F (language_model self) input_ids position_ids attention_mask
             inference_params = (lm_output, lm')"
  shows "fst (forward F self input_ids position_ids attention_mask labels inference_params) =
           (if post_process self then
              post_language_model_processing F lm_output labels
                (if untie_embeddings_and_output_weights self then output_layer_weight F lm'
                 else word_embeddings_weight F (self\<lparr>language_model := lm'\<rparr>))
                (parallel_output self) (fp16_lm_cross_entropy self)
            else Inr lm_output)"
  using assms by (simp add: forward_def Let_def)

text \<open>
  What \<^verbatim>\<open>forward\<close> returns without labels on a last stage: the projected logits
  with their first two axes exchanged. For logits of shape \<open>s # b # rest\<close> the result
  has shape \<open>b # s # rest\<close>.
\<close>

lemma forward_no_labels_result:
  assumes "post_process self"
    and "lm_forward F (language_model self) input_ids position_ids attention_mask
           inference_params = (lm_output, lm')"
    and "shape (parallel_lm_logits F lm_output
                  (if untie_embeddings_and_output_weights self then output_layer_weight F lm'
                   else word_embeddings_weight F (self\<lparr>language_model := lm'\<rparr>))
                  (parallel_output self)) = s # b # rest"
  shows "\<exists>t. fst (forward F self input_ids position_ids attention_mask None inference_params)
               = Inr t
             \<and> shape t = b # s # rest"
  using assms(1,3)
  by (simp add: forward_result [OF assms(2)] post_processing_no_labels transpose01_def)

text \<open>
  C1, at the failing input: a first-and-last stage with tied embeddings (vocabulary of five
  tokens, hidden size four), token ids of shape \<open>[3, 2]\<close>, no labels. The backbone
  returns hidden states of shape \<open>[2, 3, 4]\<close>, so the claim, like the docstring of
  \<^verbatim>\<open>post_language_model_processing\<close>, promises a result of shape \<open>[3, 2, 4]\<close>;
  the result of \<^verbatim>\<open>forward\<close> has shape \<open>[3, 2, 5]\<close>, because the projection onto
  the vocabulary has replaced the hidden axis before the transposition.
\<close>

theorem forward_no_labels_shape_failing_input:
  "shape (fst (lm_forward sample (language_model (sample_model True True False False))
                 sample_ids None None None)) = [2, 3, 4]
   \<and> map_sum id shape
         (fst (forward sample (sample_model True True False False) sample_ids
                 None None None None)) = Inr [3, 2, 5]
   \<and> map_sum id shape
         (fst (forward sample (sample_model True True False False) sample_ids
                 None None None None)) \<noteq> Inr [3, 2, 4]"
  by (simp add: model_defs sample_defs)

text \<open>
  C2: for every call to \<^verbatim>\<open>post_language_model_processing\<close> with labels provided (of
  at least two axes, so that the transposition before the assertion succeeds), the
  precision flag set and projected logits whose dtype is not half precision, the call
  raises \<^verbatim>\<open>AssertionError\<close>; when the flag is unset or the projected logits are in half
  precision, no \<^verbatim>\<open>AssertionError\<close> is raised.
\<close>

theorem precision_assertion:
  "(2 \<le> length (shape lab) \<and> fp16 \<and> dtype (parallel_lm_logits F lm_output w po) \<noteq> Half
      \<longrightarrow> post_language_model_processing F lm_output (Some lab) w po fp16 = Inl AssertionError)
   \<and> (\<not> fp16 \<or> dtype (parallel_lm_logits F lm_output w po) = Half
      \<longrightarrow> post_language_model_processing F lm_output (Some lab) w po fp16
            \<noteq> Inl AssertionError)"
  by (auto simp: post_language_model_processing_def transpose01_def contiguous_def Let_def
           split: sum.splits)

text \<open>
  Witness for C2: single-precision hidden states and weights with the flag set fail the
  assertion; the same call with the flag unset, and a half-precision call with the flag
  set, do not.
\<close>

theorem precision_assertion_witness:
  "post_language_model_processing sample (sample_hidden Float) (Some sample_labels)
      (ramp [5, 4] Float) True True = Inl AssertionError
   \<and> post_language_model_processing sample (sample_hidden Float) (Some sample_labels)
      (ramp [5, 4] Float) True False \<noteq> Inl AssertionError
   \<and> post_language_model_processing sample (sample_hidden Half) (Some sample_labels)
      (ramp [5, 4] Half) True True \<noteq> Inl AssertionError"
proof -
  have a: "2 \<le> length (shape sample_labels)" by (simp add: sample_defs)
  have b: "dtype (parallel_lm_logits sample (sample_hidden Float) (ramp [5, 4] Float) True)
             \<noteq> Half"
    by (simp add: sample_defs)
  have c: "dtype (parallel_lm_logits sample (sample_hidden Half) (ramp [5, 4] Half) True)
             = Half"
    by (simp add: sample_defs)
  show ?thesis
    using precision_assertion
            [of sample_labels True sample "sample_hidden Float" "ramp [5, 4] Float" True]
      precision_assertion
            [of sample_labels False sample "sample_hidden Float" "ramp [5, 4] Float" True]
      precision_assertion
            [of sample_labels True sample "sample_hidden Half" "ramp [5, 4] Half" True]
      a b c
    by simp
qed

text \<open>
  C9: when labels is none, \<^verbatim>\<open>post_language_model_processing\<close> never reaches the
  precision check: the call never raises \<^verbatim>\<open>AssertionError\<close>, its result is the same
  for either value of the precision flag, whatever the dtype of the projected logits, and
  it returns a tensor whenever the projected logits have the two axes that the
  transposition exchanges.
\<close>

theorem no_labels_skips_precision_check:
  "post_language_model_processing F lm_output None w po fp16 \<noteq> Inl AssertionError
   \<and> post_language_model_processing F lm_output None w po fp16
       = post_language_model_processing F lm_output None w po fp16'
   \<and> (2 \<le> length (shape (parallel_lm_logits F lm_output w po))
        \<longrightarrow> (\<exists>t. post_language_model_processing F lm_output None w po fp16 = Inr t))"
  by (auto simp: post_language_model_processing_def transpose01_def contiguous_def Let_def
           split: sum.splits)

text \<open>
  Witness for C9: single-precision logits with the precision flag set, which would fail
  the assertion if labels were given, return a tensor when labels is none.
\<close>

theorem no_labels_skips_precision_check_witness:
  "2 \<le> length (shape (parallel_lm_logits sample (sample_hidden Float) (ramp [5, 4] Float) True))
   \<and> dtype (parallel_lm_logits sample (sample_hidden Float) (ramp [5, 4] Float) True) \<noteq> Half
   \<and> (\<exists>t. post_language_model_processing sample (sample_hidden Float) None
             (ramp [5, 4] Float) True True = Inr t)"
proof -
  have a: "2 \<le> length (shape (parallel_lm_logits sample (sample_hidden Float)
                                (ramp [5, 4] Float) True))"
    by (simp add: sample_defs)
  have b: "dtype (parallel_lm_logits sample (sample_hidden Float) (ramp [5, 4] Float) True)
             \<noteq> Half"
    by (simp add: sample_defs)
  show ?thesis
    using no_labels_skips_precision_check
            [of sample "sample_hidden Float" "ramp [5, 4] Float" True True] a b
    by simp
qed

text \<open>
  C4: for every call to the forward operation with post-processing enabled, labels of
  batch-major shape \<open>b # s # rest\<close> (the documented \<open>[b, s]\<close>), logits of the matching
  shape \<open>s # b # rest @ [v]\<close> and a passing precision check: the cross-entropy reduction
  is applied to the sequence-major labels (shape \<open>s # b # rest\<close>, the entry at
  \<open>x # y # r\<close> being the label at \<open>y # x # r\<close>), and, when the reduction returns one
  loss per position of that target, the call returns the loss swapped back: its shape is
  the shape of the labels, and its entry at \<open>x # y # r\<close> is the reduction's entry at
  \<open>y # x # r\<close>.
\<close>

theorem forward_loss_shape:
  assumes "post_process self"
    and "lm_forward F (language_model self) input_ids position_ids attention_mask
           inference_params = (lm_output, lm')"
    and "logits = parallel_lm_logits F lm_output
                    (if untie_embeddings_and_output_weights self then output_layer_weight F lm'
                     else word_embeddings_weight F (self\<lparr>language_model := lm'\<rparr>))
                    (parallel_output self)"
    and "shape lab = b # s # rest"
    and "shape logits = s # b # rest @ [v]"
    and "fp16_lm_cross_entropy self \<longrightarrow> dtype logits = Half"
  shows "\<exists>target.
           shape target = s # b # rest \<and> dtype target = dtype lab
           \<and> (\<forall>x y r. elems target (x # y # r) = elems lab (y # x # r))
           \<and> (let ce = vocab_parallel_cross_entropy F
                          (if fp16_lm_cross_entropy self then logits else tensor_float F logits)
                          target
               in shape ce = shape target \<longrightarrow>
                    (\<exists>loss. fst (forward F self input_ids position_ids attention_mask
                                    (Some lab) inference_params) = Inr loss
                            \<and> shape loss = shape lab
                            \<and> dtype loss = dtype ce
                            \<and> (\<forall>x y r. elems loss (x # y # r) = elems ce (y # x # r))))"
proof -
  let ?target = "\<lparr>shape = swap01 (shape lab), dtype = dtype lab,
                   elems = (\<lambda>i. elems lab (swap01 i))\<rparr>"
  let ?ce = "vocab_parallel_cross_entropy F
               (if fp16_lm_cross_entropy self then logits else tensor_float F logits) ?target"
  have tl: "transpose01 lab = Inr ?target"
    using assms(4) by (simp add: transpose01_def)
  have res: "fst (forward F self input_ids position_ids attention_mask (Some lab)
                    inference_params) = transpose01 ?ce"
    using assms(1,3,6) tl
    by (cases "transpose01 ?ce")
       (auto simp: forward_result [OF assms(2)] post_language_model_processing_def
                   contiguous_def Let_def)
  have t1: "shape ?target = s # b # rest" using assms(4) by simp
  have t2: "dtype ?target = dtype lab" by simp
  have t3: "\<forall>x y r. elems ?target (x # y # r) = elems lab (y # x # r)" by simp
  have t4: "shape ?ce = shape ?target \<longrightarrow>
              (\<exists>loss. fst (forward F self input_ids position_ids attention_mask
                              (Some lab) inference_params) = Inr loss
                      \<and> shape loss = shape lab
                      \<and> dtype loss = dtype ?ce
                      \<and> (\<forall>x y r. elems loss (x # y # r) = elems ?ce (y # x # r)))"
  proof
    assume "shape ?ce = shape ?target"
    then have sc: "shape ?ce = s # b # rest" using t1 by simp
    then have "transpose01 ?ce = Inr \<lparr>shape = b # s # rest, dtype = dtype ?ce,
                                       elems = (\<lambda>i. elems ?ce (swap01 i))\<rparr>"
      by (simp add: transpose01_def)
    with res assms(4) show "\<exists>loss. fst (forward F self input_ids position_ids attention_mask
                              (Some lab) inference_params) = Inr loss
                      \<and> shape loss = shape lab
                      \<and> dtype loss = dtype ?ce
                      \<and> (\<forall>x y r. elems loss (x # y # r) = elems ?ce (y # x # r))"
      by simp
  qed
  show ?thesis
    unfolding Let_def
    by (rule exI [of _ ?target]) (rule conjI [OF t1 conjI [OF t2 conjI [OF t3 t4]]])
qed

text \<open>
  Witness for C4: a trained first-and-last stage with tied embeddings and the precision
  flag unset, token ids and labels of shape \<open>[3, 2]\<close>, logits of shape \<open>[2, 3, 5]\<close>.
  The reduction returns one loss per position of its target; the call returns a loss of
  shape \<open>[3, 2]\<close>, whose entry at \<open>[2, 1]\<close> is the reduction's entry at \<open>[1, 2]\<close>,
  computed for the label at \<open>[2, 1]\<close>.
\<close>

theorem forward_loss_shape_witness:
  "post_process (trained_model True True False False)
   \<and> shape sample_labels = [3, 2]
   \<and> (\<exists>loss. fst (forward sample (trained_model True True False False) sample_ids
                    None None (Some sample_labels) None) = Inr loss
             \<and> shape loss = [3, 2]
             \<and> elems loss [2, 1] = - 104)"
proof -
  let ?M = "trained_model True True False False"
  let ?r = "lm_forward sample (language_model ?M) sample_ids None None None"
  let ?logits = "parallel_lm_logits sample (fst ?r)
                   (if untie_embeddings_and_output_weights ?M
                    then output_layer_weight sample (snd ?r)
                    else word_embeddings_weight sample (?M\<lparr>language_model := snd ?r\<rparr>))
                   (parallel_output ?M)"
  have a: "post_process ?M" by (simp add: sample_defs)
  have b: "?r = (fst ?r, snd ?r)" by simp
  have c: "shape sample_labels = 3 # 2 # []" by (simp add: sample_defs)
  have d: "shape ?logits = 2 # 3 # [] @ [5]" by (simp add: sample_defs)
  have e: "fp16_lm_cross_entropy ?M \<longrightarrow> dtype ?logits = Half" by (simp add: sample_defs)
  have f: "\<And>x y. shape (vocab_parallel_cross_entropy sample x y) = shape y"
    by (simp add: sample_defs)
  from forward_loss_shape [OF a b refl c d e] obtain target where
    t: "shape target = [2, 3]" "dtype target = dtype sample_labels"
       "\<forall>x y r. elems target (x # y # r) = elems sample_labels (y # x # r)"
       "\<exists>loss. fst (forward sample ?M sample_ids None None (Some sample_labels) None)
                  = Inr loss
               \<and> shape loss = shape sample_labels
               \<and> (\<forall>x y r. elems loss (x # y # r)
                     = elems (vocab_parallel_cross_entropy sample
                                (if fp16_lm_cross_entropy ?M then ?logits
                                 else tensor_float sample ?logits) target) (y # x # r))"
    using f by (auto simp: Let_def)
  from t(4) obtain loss where
    l: "fst (forward sample ?M sample_ids None None (Some sample_labels) None) = Inr loss"
       "shape loss = shape sample_labels"
       "elems loss [2, 1]
          = elems (vocab_parallel_cross_entropy sample
                     (if fp16_lm_cross_entropy ?M then ?logits
                      else tensor_float sample ?logits) target) [1, 2]"
    by blast
  have "elems target [1, 2] = 4" using t(3) by (simp add: sample_defs)
  then have "elems (vocab_parallel_cross_entropy sample
                     (if fp16_lm_cross_entropy ?M then ?logits
                      else tensor_float sample ?logits) target) [1, 2] = - 104"
    by (simp add: sample_defs upt_rec)
  with l a c show ?thesis by simp
qed

text \<open>
  C6: for every call to the forward operation, the result is that of the post-processing
  function applied to the backbone output (with the output-layer weights when the
  embeddings are untied, the word-embedding weights otherwise) when \<open>post_process\<close> is
  true, and the backbone output unchanged when \<open>post_process\<close> is false.
\<close>

theorem forward_routes_post_processing:
  assumes "lm_forward F (language_model self) input_ids position_ids attention_mask
             inference_params = (lm_output, lm')"
  shows "(post_process self \<longrightarrow>
            fst (forward F self input_ids position_ids attention_mask labels inference_params) =
              post_language_model_processing F lm_output labels
                (if untie_embeddings_and_output_weights self then output_layer_weight F lm'
                 else word_embeddings_weight F (self\<lparr>language_model := lm'\<rparr>))
                (parallel_output self) (fp16_lm_cross_entropy self))
       \<and> (\<not> post_process self \<longrightarrow>
            fst (forward F self input_ids position_ids attention_mask labels inference_params)
              = Inr lm_output)"
  by (simp add: forward_result [OF assms])

text \<open>
  Witness for C6: a first stage that is not the last returns the hidden states of shape
  \<open>[2, 3, 4]\<close> as the backbone produced them, labels or not; a stage that is also the
  last returns logits of shape \<open>[3, 2, 5]\<close>.
\<close>

theorem forward_routes_post_processing_witness:
  "\<not> post_process (sample_model True False False False)
   \<and> fst (forward sample (sample_model True False False False) sample_ids None None
            (Some sample_labels) None)
       = Inr (fst (backbone_forward (language_model (sample_model True False False False))
                     sample_ids None None None))
   \<and> post_process (sample_model True True False False)
   \<and> map_sum id shape (fst (forward sample (sample_model True True False False) sample_ids
                               None None None None)) = Inr [3, 2, 5]"
proof -
  let ?M = "sample_model True False False False"
  let ?r = "lm_forward sample (language_model ?M) sample_ids None None None"
  let ?N = "sample_model True True False False"
  let ?q = "lm_forward sample (language_model ?N) sample_ids None None None"
  have a: "\<not> post_process ?M" by (simp add: sample_defs)
  have b: "?r = (fst ?r, snd ?r)" by simp
  have c: "fst ?r = fst (backbone_forward (language_model ?M) sample_ids None None None)"
    by (simp add: sample_def)
  have d: "post_process ?N" by (simp add: sample_defs)
  have e: "?q = (fst ?q, snd ?q)" by simp
  have f: "map_sum id shape
             (post_language_model_processing sample (fst ?q) None
                (if untie_embeddings_and_output_weights ?N
                 then output_layer_weight sample (snd ?q)
                 else word_embeddings_weight sample (?N\<lparr>language_model := snd ?q\<rparr>))
                (parallel_output ?N) (fp16_lm_cross_entropy ?N)) = Inr [3, 2, 5]"
    by (simp add: model_defs sample_defs)
  from forward_routes_post_processing [OF b, of "Some sample_labels"]
    forward_routes_post_processing [OF e, of None] a c d f
  show ?thesis by simp
qed

section \<open>The stage flags\<close>

lemma load_word_embeddings_keeps:
  "pre_process (snd (load_word_embeddings F self sd strict)) = pre_process self
   \<and> post_process (snd (load_word_embeddings F self sd strict)) = post_process self
   \<and> language_model (snd (load_word_embeddings F self sd strict)) = language_model self
   \<and> language_model_key (snd (load_word_embeddings F self sd strict))
       = language_model_key self"
  by (auto simp: load_word_embeddings_def split: option.splits prod.splits)

text \<open>
  C8: the constructor stores the two stage flags it is given, and every operation of the
  wrapper (\<^verbatim>\<open>set_input_tensor\<close>, \<^verbatim>\<open>forward\<close>, \<^verbatim>\<open>state_dict_for_save_checkpoint\<close>,
  \<^verbatim>\<open>load_state_dict\<close>) leaves \<open>pre_process\<close> and \<open>post_process\<close> as they were,
  whether it returns or raises.
\<close>

theorem stage_flags_preserved:
  "(GPTModel_init F args n po pre post = Inr self0
      \<longrightarrow> pre_process self0 = pre \<and> post_process self0 = post)
   \<and> pre_process (set_input_tensor F self t) = pre_process self
   \<and> post_process (set_input_tensor F self t) = post_process self
   \<and> pre_process (snd (forward F self input_ids position_ids attention_mask labels
                          inference_params)) = pre_process self
   \<and> post_process (snd (forward F self input_ids position_ids attention_mask labels
                           inference_params)) = post_process self
   \<and> pre_process (snd (state_dict_for_save_checkpoint F self prefix keep_vars))
       = pre_process self
   \<and> post_process (snd (state_dict_for_save_checkpoint F self prefix keep_vars))
       = post_process self
   \<and> pre_process (snd (load_state_dict F self sd strict)) = pre_process self
   \<and> post_process (snd (load_state_dict F self sd strict)) = post_process self"
proof -
  have init: "GPTModel_init F args n po pre post = Inr self0
      \<longrightarrow> pre_process self0 = pre \<and> post_process self0 = post"
    by (auto simp: GPTModel_init_def Let_def
             split: prod.splits sum.splits option.splits if_splits)
  have sit: "pre_process (set_input_tensor F self t) = pre_process self
     \<and> post_process (set_input_tensor F self t) = post_process self"
    by (simp add: set_input_tensor_def)
  have fwd: "pre_process (snd (forward F self input_ids position_ids attention_mask labels
                                 inference_params)) = pre_process self
     \<and> post_process (snd (forward F self input_ids position_ids attention_mask labels
                             inference_params)) = post_process self"
    by (simp add: forward_def Let_def split: prod.splits)
  have sv: "pre_process (snd (state_dict_for_save_checkpoint F self prefix keep_vars))
              = pre_process self
     \<and> post_process (snd (state_dict_for_save_checkpoint F self prefix keep_vars))
         = post_process self"
    by (simp add: state_dict_for_save_checkpoint_def Let_def split: option.splits)
  have ld: "pre_process (snd (load_state_dict F self sd strict)) = pre_process self
     \<and> post_process (snd (load_state_dict F self sd strict)) = post_process self"
    using load_word_embeddings_keeps [of F self sd strict]
    by (auto simp: load_state_dict_def Let_def split: prod.splits option.splits)
  from init sit fwd sv ld show ?thesis by blast
qed

text \<open>
  Witness for C8: the constructor, asked for a last stage that is not the first, with tied
  embeddings, returns the instance \<open>sample_model False True False True\<close>, whose flags
  are \<open>False\<close> and \<open>True\<close>.
\<close>

theorem stage_flags_preserved_witness:
  "GPTModel_init sample (sample_args False True) 0 True False True
     = Inr (sample_model False True False True)
   \<and> pre_process (sample_model False True False True) = False
   \<and> post_process (sample_model False True False True) = True"
proof -
  have a: "GPTModel_init sample (sample_args False True) 0 True False True
             = Inr (sample_model False True False True)"
    by (simp add: GPTModel_init_def sample_defs)
  from stage_flags_preserved
         [of sample "sample_args False True" 0 True False True
             "sample_model False True False True"] a
  show ?thesis by simp
qed

section \<open>Checkpoints\<close>

text \<open>
  C3: whenever \<^verbatim>\<open>state_dict_for_save_checkpoint\<close> returns a mapping, a key other than
  the language-model key is in that mapping if and only if the instance is a last stage,
  is not a first stage, embeddings are tied, and the key is the word-embeddings-for-head
  key of the instance; on such a stage the mapping does contain the head key. When
  embeddings are untied the call always returns a mapping, and its only key is the
  language-model key.
\<close>

theorem checkpoint_head_key_iff:
  "(fst (state_dict_for_save_checkpoint F self prefix keep_vars) = Inr sd
      \<longrightarrow> (k \<noteq> language_model_key self \<longrightarrow>
             (k \<in> dom sd \<longleftrightarrow>
                post_process self \<and> \<not> pre_process self
                  \<and> \<not> untie_embeddings_and_output_weights self
                  \<and> word_embeddings_for_head_key self = Some k))
          \<and> (post_process self \<and> \<not> pre_process self
                \<and> \<not> untie_embeddings_and_output_weights self
              \<longrightarrow> (\<exists>k'. word_embeddings_for_head_key self = Some k' \<and> k' \<in> dom sd)))
   \<and> (untie_embeddings_and_output_weights self
      \<longrightarrow> (\<exists>sd'. fst (state_dict_for_save_checkpoint F self prefix keep_vars) = Inr sd'
                 \<and> dom sd' = {language_model_key self}))"
  by (auto simp: state_dict_for_save_checkpoint_def saves_word_embeddings_def Let_def
           split: option.splits if_splits)

text \<open>
  Witness for C3: the mapping of a last stage that is not the first, with tied embeddings,
  contains \<^verbatim>\<open>word_embeddings_for_head\<close>; that of a single stage (first and last) with
  tied embeddings does not; that of the last stage with untied embeddings has the single
  key \<^verbatim>\<open>language_model\<close>.
\<close>

theorem checkpoint_head_key_iff_witness:
  "(\<exists>sd. fst (state_dict_for_save_checkpoint sample (trained_model False True False False)
                [] False) = Inr sd
          \<and> ''word_embeddings_for_head'' \<in> dom sd)
   \<and> (\<exists>sd. fst (state_dict_for_save_checkpoint sample (trained_model True True False False)
                  [] False) = Inr sd
          \<and> ''word_embeddings_for_head'' \<notin> dom sd)
   \<and> (\<exists>sd'. fst (state_dict_for_save_checkpoint sample (trained_model False True True False)
                   [] False) = Inr sd'
           \<and> dom sd' = {''language_model''})"
proof -
  let ?M = "trained_model False True False False"
  let ?S = "trained_model True True False False"
  let ?U = "trained_model False True True False"
  let ?k = "''word_embeddings_for_head''"
  have "\<exists>sd. fst (state_dict_for_save_checkpoint sample ?M [] False) = Inr sd"
    by (simp add: state_dict_for_save_checkpoint_def saves_word_embeddings_def sample_defs)
  then obtain sd where sd: "fst (state_dict_for_save_checkpoint sample ?M [] False) = Inr sd"
    by blast
  have "\<exists>sd. fst (state_dict_for_save_checkpoint sample ?S [] False) = Inr sd"
    by (simp add: state_dict_for_save_checkpoint_def saves_word_embeddings_def sample_defs)
  then obtain ss where ss: "fst (state_dict_for_save_checkpoint sample ?S [] False) = Inr ss"
    by blast
  have a: "word_embeddings_for_head_key ?M = Some ?k" by (simp add: sample_defs)
  have b: "?k \<noteq> language_model_key ?M" "?k \<noteq> language_model_key ?S"
    by (simp_all add: sample_defs)
  have c: "post_process ?M \<and> \<not> pre_process ?M \<and> \<not> untie_embeddings_and_output_weights ?M"
    by (simp add: sample_defs)
  have d: "pre_process ?S" by (simp add: sample_defs)
  have e: "untie_embeddings_and_output_weights ?U \<and> language_model_key ?U = ''language_model''"
    by (simp add: sample_defs)
  from checkpoint_head_key_iff [of sample ?M "[]" False sd ?k] sd a b(1) c
  have "?k \<in> dom sd" by simp
  with sd have 1: "\<exists>sd. fst (state_dict_for_save_checkpoint sample ?M [] False) = Inr sd
                       \<and> ?k \<in> dom sd"
    by (intro exI [of _ sd] conjI)
  from checkpoint_head_key_iff [of sample ?S "[]" False ss ?k] ss b(2) d
  have "?k \<notin> dom ss" by simp
  with ss have 2: "\<exists>sd. fst (state_dict_for_save_checkpoint sample ?S [] False) = Inr sd
                       \<and> ?k \<notin> dom sd"
    by (intro exI [of _ ss] conjI)
  from checkpoint_head_key_iff [of sample ?U "[]" False sd ?k] e
  have 3: "\<exists>sd'. fst (state_dict_for_save_checkpoint sample ?U [] False) = Inr sd'
                 \<and> dom sd' = {''language_model''}" by simp
  show ?thesis by (rule conjI [OF 1 conjI [OF 2 3]])
qed

text \<open>
  C10, as stated, at a concrete call: a last stage that is not the first, with tied
  embeddings, is given the flat checkpoint, which does not contain the language-model key.
  The backbone's loader, had it received the mapping, would have taken over the trained
  parameters without an error; but the call ends with \<^verbatim>\<open>KeyError\<close> at the look-up of
  the head key, before the loader is reached, and the instance is as it was.
\<close>

theorem load_state_dict_backbone_argument_counterexample:
  "language_model_key (sample_model False True False False) \<notin> dom flat_checkpoint
   \<and> load_state_dict sample (sample_model False True False False) flat_checkpoint True
       = (Some KeyError, sample_model False True False False)
   \<and> lm_load_state_dict sample (language_model (sample_model False True False False))
         (Dict flat_checkpoint) True
       = (None, language_model (trained_model False True False False))
   \<and> language_model (trained_model False True False False)
       \<noteq> language_model (sample_model False True False False)"
proof -
  let ?M = "sample_model False True False False"
  have a: "language_model_key ?M \<notin> dom flat_checkpoint"
    by (simp add: flat_checkpoint_def sample_model_def)
  have "load_word_embeddings sample ?M flat_checkpoint True = (Some KeyError, ?M)"
    by (simp add: load_word_embeddings_def saves_word_embeddings_def flat_checkpoint_def
                  sample_model_def)
  then have b: "load_state_dict sample ?M flat_checkpoint True = (Some KeyError, ?M)"
    by (simp add: load_state_dict_def)
  have c: "lm_load_state_dict sample (language_model ?M) (Dict flat_checkpoint) True
             = (None, language_model (trained_model False True False False))"
    by (simp add: backbone_load_state_dict_def flat_checkpoint_def sample_def
                  sample_model_def trained_model_def)
  have "ramp [5, 4] Half \<noteq> zeros [5, 4] Half"
  proof
    assume "ramp [5, 4] Half = zeros [5, 4] Half"
    then have "elems (ramp [5, 4] Half) [1] = elems (zeros [5, 4] Half) [1]" by simp
    then show False by (simp add: ramp_def zeros_def)
  qed
  then have d: "language_model (trained_model False True False False) \<noteq> language_model ?M"
    by (simp add: sample_model_def trained_model_def)
  show ?thesis by (rule conjI [OF a conjI [OF b conjI [OF c d]]])
qed

text \<open>
  C10, amended: for every call to \<^verbatim>\<open>load_state_dict\<close> in which the word-embedding step
  that precedes the backbone load does not raise (only a last stage that is not the first,
  with tied embeddings, takes that step): if the given mapping does not contain the
  language-model key, the backbone's loader receives the entire mapping, unchanged; if the
  key is present, the loader receives only the value under it. The call ends with what the
  loader returns.
\<close>

theorem load_state_dict_backbone_argument:
  assumes "load_word_embeddings F self sd strict = (None, self')"
  shows "(language_model_key self \<notin> dom sd \<longrightarrow>
            load_state_dict F self sd strict =
              (case lm_load_state_dict F (language_model self) (Dict sd) strict of
                 (r, lm') \<Rightarrow> (r, self'\<lparr>language_model := lm'\<rparr>)))
       \<and> (\<forall>v. sd (language_model_key self) = Some v \<longrightarrow>
            load_state_dict F self sd strict =
              (case lm_load_state_dict F (language_model self) v strict of
                 (r, lm') \<Rightarrow> (r, self'\<lparr>language_model := lm'\<rparr>)))"
proof -
  have "language_model self' = language_model self
        \<and> language_model_key self' = language_model_key self"
    using assms load_word_embeddings_keeps [of F self sd strict] by simp
  then show ?thesis using assms
    by (auto simp: load_state_dict_def Let_def split: prod.splits option.splits)
qed

text \<open>
  Witness for C10 (amended): a stage with untied embeddings loads the trained parameters
  both from the flat checkpoint, which goes to the backbone whole, and from the mapping
  that holds the same entries under the key \<^verbatim>\<open>language_model\<close>.
\<close>

theorem load_state_dict_backbone_argument_witness:
  "load_state_dict sample (sample_model True True True False) flat_checkpoint True
     = (None, trained_model True True True False)
   \<and> load_state_dict sample (sample_model True True True False)
       (Map.empty(''language_model'' \<mapsto> Dict flat_checkpoint)) True
     = (None, trained_model True True True False)"
proof -
  let ?M = "sample_model True True True False"
  let ?nested = "Map.empty(''language_model'' \<mapsto> Dict flat_checkpoint)"
  have a: "load_word_embeddings sample ?M flat_checkpoint True = (None, ?M)"
    by (simp add: load_word_embeddings_def saves_word_embeddings_def sample_defs)
  have b: "load_word_embeddings sample ?M ?nested True = (None, ?M)"
    by (simp add: load_word_embeddings_def saves_word_embeddings_def sample_defs)
  have c: "language_model_key ?M \<notin> dom flat_checkpoint" by (simp add: sample_defs)
  have d: "?nested (language_model_key ?M) = Some (Dict flat_checkpoint)"
    by (simp add: sample_defs)
  have e: "(case lm_load_state_dict sample (language_model ?M) (Dict flat_checkpoint) True of
              (r, lm') \<Rightarrow> (r, ?M\<lparr>language_model := lm'\<rparr>))
             = (None, trained_model True True True False)"
    by (simp add: sample_defs)
  from load_state_dict_backbone_argument [OF a] load_state_dict_backbone_argument [OF b]
    c d e
  show ?thesis by simp
qed





end
